theory Spec2Isabelle
  imports Complex_Main
begin

section \<open>JavaScript values used by sepa.js\<close>

text \<open>
  Strings are lists of code units; the identifiers handled by the library are ASCII, and
  every \<^typ>\<open>char\<close> stands for the code unit with the same number (0 to 255).
  A JavaScript number that may be \<open>NaN\<close> is an \<^typ>\<open>int option\<close>, with \<open>None\<close>
  for \<open>NaN\<close>.
\<close>

definition charCodeAt :: "char \<Rightarrow> nat" where
  "charCodeAt c = of_char c"

definition isDigit :: "char \<Rightarrow> bool" where
  "isDigit c = (48 \<le> charCodeAt c \<and> charCodeAt c \<le> 57)"

text \<open>White space and line terminators of ECMAScript among the code units 0 to 255.\<close>

definition isWhiteSpace :: "char \<Rightarrow> bool" where
  "isWhiteSpace c = (charCodeAt c \<in> {9, 10, 11, 12, 13, 32, 160})"

text \<open>\<open>String.prototype.substr(start, length)\<close>; \<open>None\<close> is an omitted length.\<close>

definition substr :: "string \<Rightarrow> int \<Rightarrow> nat option \<Rightarrow> string" where
  "substr s start len =
     (let n = int (length s);
          b = (if start < 0 then max (n + start) 0 else min start n);
          r = drop (nat b) s
      in case len of None \<Rightarrow> r | Some l \<Rightarrow> take l r)"

text \<open>Decimal rendering of a non-negative integer, as \<open>Number.prototype.toString\<close> gives it.\<close>

definition digitChar :: "nat \<Rightarrow> char" where
  "digitChar d = char_of (48 + d)"

fun toString :: "nat \<Rightarrow> string" where
  "toString n = (if n < 10 then [digitChar n] else toString (n div 10) @ [digitChar (n mod 10)])"

definition numToString :: "int option \<Rightarrow> string" where
  "numToString v =
     (case v of
        None \<Rightarrow> ''NaN''
      | Some i \<Rightarrow> if i < 0 then CHR ''-'' # toString (nat (- i)) else toString (nat i))"

text \<open>The number a string of decimal digits denotes, by position.\<close>

fun decimalValue :: "string \<Rightarrow> nat" where
  "decimalValue [] = 0"
| "decimalValue (c # cs) = (charCodeAt c - 48) * 10 ^ length cs + decimalValue cs"

text \<open>
  \<open>parseInt(s, 10)\<close>: leading white space is skipped, then an optional sign, then the
  longest run of digits; no digit gives \<open>NaN\<close>. The library applies it to strings of one
  or two characters only, where the result is exact.
\<close>

definition parseInt :: "string \<Rightarrow> int option" where
  "parseInt s =
     (let t = dropWhile isWhiteSpace s;
          neg = (t \<noteq> [] \<and> hd t = CHR ''-'');
          u = (if t \<noteq> [] \<and> (hd t = CHR ''-'' \<or> hd t = CHR ''+'') then tl t else t);
          ds = takeWhile isDigit u
      in if ds = [] then None
         else Some (if neg then - int (decimalValue ds) else int (decimalValue ds)))"

text \<open>The remainder operator \<open>%\<close>: the result has the sign of the dividend.\<close>

definition jsRem :: "int \<Rightarrow> int \<Rightarrow> int" where
  "jsRem a b = sgn a * (\<bar>a\<bar> mod \<bar>b\<bar>)"


section \<open>Checksums: IBAN and creditor id\<close>

text \<open>\<open>_replaceChars\<close>: the loop appends to \<open>res\<close> for each character of \<open>str\<close>.\<close>

fun replaceChars_loop :: "string \<Rightarrow> string \<Rightarrow> string" where
  "replaceChars_loop res [] = res"
| "replaceChars_loop res (c # cs) =
     (let cc = charCodeAt c
      in replaceChars_loop
           (if 65 \<le> cc \<and> cc \<le> 90 then res @ toString (cc - 55)
            else if 97 \<le> cc \<and> cc \<le> 122 then res @ toString (cc - 87)
            else if 48 \<le> cc \<and> cc \<le> 57 then res @ [c]
            else res) cs)"

definition replaceChars :: "string \<Rightarrow> string" where
  "replaceChars str = replaceChars_loop [] str"

text \<open>\<open>_txtMod97\<close>: \<open>res = (res * 10 + parseInt(str[i], 10)) % 97\<close> for each character.\<close>

fun txtMod97_loop :: "int option \<Rightarrow> string \<Rightarrow> int option" where
  "txtMod97_loop res [] = res"
| "txtMod97_loop res (c # cs) =
     txtMod97_loop
       (case (res, parseInt [c]) of
          (Some r, Some d) \<Rightarrow> Some (jsRem (r * 10 + d) 97)
        | _ \<Rightarrow> None) cs"

definition txtMod97 :: "string \<Rightarrow> int option" where
  "txtMod97 str = txtMod97_loop (Some 0) str"

definition validateIBAN :: "string \<Rightarrow> bool" where
  "validateIBAN iban =
     (let ibrev = substr iban 4 None @ substr iban 0 (Some 4)
      in txtMod97 (replaceChars ibrev) = Some 1)"

text \<open>\<open>98 - mod\<close> on a number that may be \<open>NaN\<close>.\<close>

definition checkValue :: "int option \<Rightarrow> int option" where
  "checkValue m = map_option (\<lambda>v. 98 - v) m"

definition checksumIBAN :: "string \<Rightarrow> string" where
  "checksumIBAN iban =
     (let ibrev = substr iban 4 None @ substr iban 0 (Some 2) @ ''00'';
          m = txtMod97 (replaceChars ibrev)
      in substr iban 0 (Some 2)
         @ substr (CHR ''0'' # numToString (checkValue m)) (- 2) (Some 2)
         @ substr iban 4 None)"

definition validateCreditorID :: "string \<Rightarrow> bool" where
  "validateCreditorID cid =
     (let cidrev = substr cid 7 None @ substr cid 0 (Some 4)
      in txtMod97 (replaceChars cidrev) = Some 1)"

definition checksumCreditorID :: "string \<Rightarrow> string" where
  "checksumCreditorID cid =
     (let cidrev = substr cid 7 None @ substr cid 0 (Some 2) @ ''00'';
          m = txtMod97 (replaceChars cidrev)
      in substr cid 0 (Some 2)
         @ substr (CHR ''0'' # numToString (checkValue m)) (- 2) (Some 2)
         @ substr cid 4 None)"


section \<open>Format registry\<close>

definition XSI_NAMESPACE :: string where
  "XSI_NAMESPACE = ''http://www.w3.org/2001/XMLSchema-instance''"

definition XSI_NS :: string where
  "XSI_NS = ''urn:iso:std:iso:20022:tech:xsd:''"

definition SEPATypes :: "string \<rightharpoonup> string" where
  "SEPATypes = map_of
     [(''pain.001.001.02'', ''pain.001.001.02''),
      (''pain.001.003.02'', ''pain.001.003.02''),
      (''pain.001.001.03'', ''CstmrCdtTrfInitn''),
      (''pain.001.002.03'', ''CstmrCdtTrfInitn''),
      (''pain.001.003.03'', ''CstmrCdtTrfInitn''),
      (''pain.008.001.01'', ''pain.008.001.01''),
      (''pain.008.003.01'', ''pain.008.003.01''),
      (''pain.008.001.02'', ''CstmrDrctDbtInitn''),
      (''pain.008.003.02'', ''CstmrDrctDbtInitn'')]"

text \<open>
  \<open>SEPATypes[f]\<close> is \<open>undefined\<close> for every other string \<open>f\<close>, except for the property
  names that every object inherits from \<open>Object.prototype\<close>, which the map does not model.
\<close>

definition inheritedNames :: "string list" where
  "inheritedNames =
     [''constructor'', ''hasOwnProperty'', ''isPrototypeOf'', ''propertyIsEnumerable'',
      ''toLocaleString'', ''toString'', ''valueOf'', ''__proto__'', ''__defineGetter__'',
      ''__defineSetter__'', ''__lookupGetter__'', ''__lookupSetter__'']"

text \<open>\<open>s.indexOf(p) === 0\<close>: the string \<open>s\<close> begins with \<open>p\<close>.\<close>

definition startsWith :: "string \<Rightarrow> string \<Rightarrow> bool" where
  "startsWith s p = (take (length p) s = p)"

definition getPainXMLVersion :: "string \<Rightarrow> int option" where
  "getPainXMLVersion painFormat =
     (let inc = (if startsWith painFormat ''pain.008'' then 1 else 0)
      in map_option (\<lambda>v. v + inc) (parseInt (substr painFormat (- 2) None)))"


section \<open>Entities\<close>

text \<open>
  Amounts and control sums are JavaScript numbers. The model leaves the number type open:
  \<^typ>\<open>'a\<close> with its \<open>0\<close> and \<open>+\<close>, and \<open>toFixed(2)\<close> as a function
  \<open>toFixed :: 'a \<Rightarrow> string\<close> handed to the serializer. A \<open>Date\<close> is represented by the
  string its \<open>toISOString()\<close> returns; a field holding \<open>null\<close> is \<open>None\<close>.
  The fields \<open>creditorName\<close>, \<open>creditorStreet\<close>, ... and \<open>debtorName\<close>, ..., which the
  source selects as \<open>this[pullFrom + 'Name']\<close>, are the two records \<open>creditor\<close> and
  \<open>debtor\<close>.
\<close>

type_synonym date = string

record party =
  Name :: string
  Street :: "string option"
  City :: "string option"
  Country :: "string option"
  IBAN :: string
  BIC :: string

definition emptyParty :: party where
  "emptyParty =
     \<lparr>Name = [], Street = None, City = None, Country = None, IBAN = [], BIC = []\<rparr>"

datatype PaymentInfoTypes = DirectDebit | Transfer

fun methodCode :: "PaymentInfoTypes \<Rightarrow> string" where
  "methodCode DirectDebit = ''DD''"
| "methodCode Transfer = ''TRF''"

fun TransactionTypes :: "PaymentInfoTypes \<Rightarrow> string" where
  "TransactionTypes DirectDebit = ''DrctDbtTxInf''"
| "TransactionTypes Transfer = ''CdtTrfTxInf''"

record 'a SepaTransaction =
  tx_painFormat :: string
  tx_type :: PaymentInfoTypes
  tx_id :: string
  end2endId :: string
  currency :: string
  amount :: 'a
  purposeCode :: "string option"
  mandateId :: string
  mandateSignatureDate :: "date option"
  ammendment :: "string option"
  tx_debtor :: party
  remittanceInfo :: string
  tx_creditor :: party

record 'a SepaPaymentInfo =
  pi_painFormat :: string
  payments :: "'a SepaTransaction list"
  pi_id :: string
  pi_method :: PaymentInfoTypes
  pi_batchBooking :: bool
  pi_grouping :: string
  pi_controlSum :: 'a
  localInstrumentation :: "string option"
  sequenceType :: string
  collectionDate :: "date option"
  requestedExecutionDate :: "date option"
  creditorId :: string
  pi_creditor :: party
  debtorId :: string
  pi_debtor :: party
  instructionPriority :: string

record 'a SepaGroupHeader =
  gh_painFormat :: string
  gh_id :: string
  created :: "date option"
  gh_transactionCount :: nat
  initiatorName :: string
  gh_controlSum :: 'a
  gh_batchBooking :: bool
  gh_grouping :: string

record 'a SepaDocument =
  painFormat :: string
  grpHdr :: "'a SepaGroupHeader"
  paymentInfo :: "'a SepaPaymentInfo list"
  doc_type :: "string option"

record options =
  opt_painFormat :: "string option"
  opt_id :: string
  opt_created :: "date option"
  opt_initiatorName :: string

text \<open>The constructors; fields they do not set take the prototype's defaults.\<close>

definition SepaGroupHeader :: "string \<Rightarrow> options \<Rightarrow> ('a::zero) SepaGroupHeader" where
  "SepaGroupHeader pf opts =
     \<lparr>gh_painFormat = pf, gh_id = opt_id opts, created = opt_created opts,
      gh_transactionCount = 0, initiatorName = opt_initiatorName opts,
      gh_controlSum = 0, gh_batchBooking = False, gh_grouping = ''MIXD''\<rparr>"

text \<open>\<open>options.painFormat || 'pain.008.001.02'\<close>: an absent or empty format is the default.\<close>

definition SepaDocument :: "options \<Rightarrow> ('a::zero) SepaDocument" where
  "SepaDocument opts =
     (let pf = (case opt_painFormat opts of
                  None \<Rightarrow> ''pain.008.001.02''
                | Some s \<Rightarrow> if s = [] then ''pain.008.001.02'' else s)
      in \<lparr>painFormat = pf, grpHdr = SepaGroupHeader pf opts, paymentInfo = [],
          doc_type = SEPATypes pf\<rparr>)"

definition SepaPaymentInfo :: "string \<Rightarrow> ('a::zero) SepaPaymentInfo" where
  "SepaPaymentInfo pf =
     \<lparr>pi_painFormat = pf, payments = [], pi_id = [],
      pi_method = (if startsWith pf ''pain.001'' then Transfer else DirectDebit),
      pi_batchBooking = False, pi_grouping = ''MIXD'', pi_controlSum = 0,
      localInstrumentation = None, sequenceType = ''FRST'', collectionDate = None,
      requestedExecutionDate = None, creditorId = [], pi_creditor = emptyParty,
      debtorId = [], pi_debtor = emptyParty, instructionPriority = ''NORM''\<rparr>"

definition SepaTransaction :: "string \<Rightarrow> ('a::zero) SepaTransaction" where
  "SepaTransaction pf =
     \<lparr>tx_painFormat = pf,
      tx_type = (if startsWith pf ''pain.001'' then Transfer else DirectDebit),
      tx_id = [], end2endId = [], currency = ''EUR'', amount = 0, purposeCode = None,
      mandateId = [], mandateSignatureDate = None, ammendment = None,
      tx_debtor = emptyParty, remittanceInfo = [], tx_creditor = emptyParty\<rparr>"

definition createPaymentInfo :: "('a::zero) SepaDocument \<Rightarrow> 'a SepaPaymentInfo" where
  "createPaymentInfo doc = SepaPaymentInfo (painFormat doc)"

definition createTransaction :: "('a::zero) SepaPaymentInfo \<Rightarrow> 'a SepaTransaction" where
  "createTransaction p = SepaTransaction (pi_painFormat p)"

definition transactionCount :: "'a SepaPaymentInfo \<Rightarrow> nat" where
  "transactionCount p = length (payments p)"

text \<open>
  What a caller can hand to \<open>addPaymentInfo\<close> and \<open>addTransaction\<close>, which test their
  argument with \<open>instanceof\<close> and throw an \<open>Error\<close> otherwise. A \<open>TypeError\<close> is what
  calling \<open>toISOString\<close> on \<open>null\<close> raises.
\<close>

datatype 'a jsobject =
  APaymentInfo "'a SepaPaymentInfo"
| ATransaction "'a SepaTransaction"
| AnotherValue

datatype error = Error string | TypeError

text \<open>\<open>s.slice(b, e)\<close> for non-negative \<open>b\<close> and \<open>e\<close>.\<close>

definition slice :: "string \<Rightarrow> nat \<Rightarrow> nat \<Rightarrow> string" where
  "slice s b e = take (e - b) (drop b s)"

text \<open>The separator \<open>ID_SEPARATOR\<close> is a module variable; the model passes it along.\<close>

definition addPaymentInfo ::
  "string \<Rightarrow> 'a jsobject \<Rightarrow> 'a SepaDocument \<Rightarrow> error + 'a SepaDocument" where
  "addPaymentInfo ID_SEPARATOR obj doc =
     (case obj of
        APaymentInfo p \<Rightarrow>
          Inr (doc\<lparr>paymentInfo := paymentInfo doc @
                 [p\<lparr>pi_id :=
                      (if pi_id p \<noteq> [] then gh_id (grpHdr doc) @ ID_SEPARATOR @ pi_id p
                       else gh_id (grpHdr doc) @ ID_SEPARATOR
                            @ toString (length (paymentInfo doc)))\<rparr>]\<rparr>)
      | _ \<Rightarrow> Inl (Error ''Given payment is not member of the PaymentInfo class''))"

definition addTransaction ::
  "string \<Rightarrow> 'a jsobject \<Rightarrow> 'a SepaPaymentInfo \<Rightarrow> error + 'a SepaPaymentInfo" where
  "addTransaction ID_SEPARATOR obj p =
     (case obj of
        ATransaction pmt \<Rightarrow>
          Inr (p\<lparr>payments := payments p @
                 [pmt\<lparr>tx_id :=
                      slice (if tx_id pmt \<noteq> [] then tx_id pmt
                             else pi_id p @ ID_SEPARATOR @ toString (length (payments p)))
                        0 35\<rparr>]\<rparr>)
      | _ \<Rightarrow> Inl (Error ''Given Transaction is not member of the SepaTransaction class''))"

text \<open>\<open>SepaPaymentInfo.prototype.normalize\<close>: the loop adds the amounts up from 0.\<close>

fun pi_normalize_loop :: "('a::plus) \<Rightarrow> 'a SepaTransaction list \<Rightarrow> 'a" where
  "pi_normalize_loop controlSum [] = controlSum"
| "pi_normalize_loop controlSum (t # ts) = pi_normalize_loop (controlSum + amount t) ts"

definition pi_normalize :: "('a::{zero,plus}) SepaPaymentInfo \<Rightarrow> 'a SepaPaymentInfo" where
  "pi_normalize p = p\<lparr>pi_controlSum := pi_normalize_loop 0 (payments p)\<rparr>"

text \<open>
  \<open>SepaDocument.prototype.normalize\<close>: the loop normalizes each block in place and adds its
  control sum and transaction count to the running totals.
\<close>

fun doc_normalize_loop ::
  "('a::{zero,plus}) \<Rightarrow> nat \<Rightarrow> 'a SepaPaymentInfo list
     \<Rightarrow> 'a SepaPaymentInfo list \<times> 'a \<times> nat" where
  "doc_normalize_loop controlSum txCount [] = ([], controlSum, txCount)"
| "doc_normalize_loop controlSum txCount (p # ps) =
     (let p' = pi_normalize p;
          (ps', cs, tc) = doc_normalize_loop (controlSum + pi_controlSum p')
                            (txCount + transactionCount p') ps
      in (p' # ps', cs, tc))"

definition doc_normalize :: "('a::{zero,plus}) SepaDocument \<Rightarrow> 'a SepaDocument" where
  "doc_normalize doc =
     (let (ps, controlSum, txCount) = doc_normalize_loop 0 0 (paymentInfo doc)
      in doc\<lparr>paymentInfo := ps,
             grpHdr := (grpHdr doc)\<lparr>gh_controlSum := controlSum,
                                     gh_transactionCount := txCount\<rparr>\<rparr>)"


section \<open>Serialization\<close>

text \<open>
  The DOM is an outside facility: the model records what the library hands to it. An
  element is its tag, the attributes set on it and its children in the order they were
  appended; \<open>Text v\<close> records the assignment \<open>node.textContent = v\<close>. All elements are
  created in the document's namespace.
\<close>

datatype jsval = JNull | JStr string | JNum nat

fun truthy :: "jsval \<Rightarrow> bool" where
  "truthy JNull = False"
| "truthy (JStr s) = (s \<noteq> [])"
| "truthy (JNum n) = (n \<noteq> 0)"

definition nullable :: "string option \<Rightarrow> jsval" where
  "nullable v = (case v of None \<Rightarrow> JNull | Some s \<Rightarrow> JStr s)"

definition boolToString :: "bool \<Rightarrow> string" where
  "boolToString b = (if b then ''true'' else ''false'')"

datatype xml = Elem string "(string \<times> string) list" "xml list" | Text jsval

text \<open>
  \<open>createXMLHelper(doc, required, withVal)\<close> gives a function of a parent node, element
  names and, when \<open>withVal\<close>, a value. It appends the chain of nested elements to the
  parent and returns the innermost one, or appends nothing and returns \<open>null\<close>. The model
  returns what is appended to the parent; \<open>attrs\<close> and \<open>kids\<close> are the attributes and
  children that the caller gives the returned node afterwards. The library always passes
  at least one element name.
\<close>

fun nest :: "string list \<Rightarrow> (string \<times> string) list \<Rightarrow> xml list \<Rightarrow> xml list" where
  "nest [] attrs kids = []"
| "nest [t] attrs kids = [Elem t attrs kids]"
| "nest (t # ts) attrs kids = [Elem t [] (nest ts attrs kids)]"

definition createXMLHelper ::
  "bool \<Rightarrow> bool \<Rightarrow> string list \<Rightarrow> jsval \<Rightarrow> (string \<times> string) list \<Rightarrow> xml list \<Rightarrow> xml list" where
  "createXMLHelper required withVal names val attrs kids =
     (if required \<or> (withVal \<and> (truthy val \<or> val = JNum 0))
      then nest names attrs ((if withVal then [Text val] else []) @ kids)
      else [])"

text \<open>The three helpers \<open>n\<close>, \<open>o\<close> and \<open>r\<close> of the \<open>toXML\<close> methods.\<close>

definition nNode :: "string list \<Rightarrow> xml list \<Rightarrow> xml list" where
  "nNode names kids = createXMLHelper True False names JNull [] kids"

definition oNode :: "string list \<Rightarrow> jsval \<Rightarrow> xml list" where
  "oNode names val = createXMLHelper False True names val [] []"

definition rNode :: "string list \<Rightarrow> jsval \<Rightarrow> xml list" where
  "rNode names val = createXMLHelper True True names val [] []"

text \<open>\<open>r(...).setAttribute('Ccy', c)\<close>.\<close>

definition rNodeCcy :: "string list \<Rightarrow> jsval \<Rightarrow> string \<Rightarrow> xml list" where
  "rNodeCcy names val c = createXMLHelper True True names val [(''Ccy'', c)] []"

definition gh_toXML :: "('a \<Rightarrow> string) \<Rightarrow> 'a SepaGroupHeader \<Rightarrow> error + xml" where
  "gh_toXML toFixed h =
     (let painVersion = getPainXMLVersion (gh_painFormat h)
      in case created h of
           None \<Rightarrow> Inl TypeError
         | Some isoDate \<Rightarrow>
             Inr (Elem ''GrpHdr'' []
               (rNode [''MsgId''] (JStr (gh_id h))
                @ rNode [''CreDtTm''] (JStr isoDate)
                @ (if painVersion = Some 2
                   then rNode [''BtchBookg''] (JStr (boolToString (gh_batchBooking h)))
                   else [])
                @ rNode [''NbOfTxs''] (JNum (gh_transactionCount h))
                @ rNode [''CtrlSum''] (JStr (toFixed (gh_controlSum h)))
                @ (if painVersion = Some 2 then rNode [''Grpg''] (JStr (gh_grouping h)) else [])
                @ rNode [''InitgPty'', ''Nm''] (JStr (initiatorName h)))))"

definition tx_toXML :: "('a \<Rightarrow> string) \<Rightarrow> 'a SepaTransaction \<Rightarrow> error + xml" where
  "tx_toXML toFixed t =
     (let pullFrom = (if tx_type t = Transfer then tx_creditor t else tx_debtor t);
          receiverNodeName = (if tx_type t = Transfer then ''Cdtr'' else ''Dbtr'');
          painVersion = getPainXMLVersion (tx_painFormat t);
          paymentId = nNode [''PmtId'']
                        (rNode [''InstrId''] (JStr (tx_id t))
                         @ rNode [''EndToEndId''] (JStr (end2endId t)));
          agent = (if BIC pullFrom \<noteq> []
                   then rNode [receiverNodeName @ ''Agt'', ''FinInstnId'', ''BIC'']
                          (JStr (BIC pullFrom))
                   else rNode [receiverNodeName @ ''Agt'', ''FinInstnId'', ''Othr'', ''Id'']
                          (JStr ''NOTPROVIDED''));
          receiver = nNode [receiverNodeName]
                       (rNode [''Nm''] (JStr (Name pullFrom))
                        @ (if truthy (nullable (Street pullFrom))
                              \<and> truthy (nullable (City pullFrom))
                              \<and> truthy (nullable (Country pullFrom))
                           then nNode [''PstlAdr'']
                                  (rNode [''Ctry''] (nullable (Country (tx_debtor t)))
                                   @ rNode [''AdrLine''] (nullable (Street (tx_debtor t)))
                                   @ rNode [''AdrLine''] (nullable (City (tx_debtor t))))
                           else []));
          tail = agent @ receiver
                 @ rNode [receiverNodeName @ ''Acct'', ''Id'', ''IBAN''] (JStr (IBAN pullFrom))
                 @ rNode [''RmtInf'', ''Ustrd''] (JStr (remittanceInfo t))
                 @ (if painVersion \<noteq> Some 3 then oNode [''Purp'', ''Cd''] (nullable (purposeCode t))
                    else [])
      in if tx_type t = DirectDebit
         then (case mandateSignatureDate t of
                 None \<Rightarrow> Inl TypeError
               | Some isoDate \<Rightarrow>
                   Inr (Elem (TransactionTypes (tx_type t)) []
                     (paymentId
                      @ rNodeCcy [''InstdAmt''] (JStr (toFixed (amount t))) (currency t)
                      @ nNode [''DrctDbtTx'', ''MndtRltdInf'']
                          (rNode [''MndtId''] (JStr (mandateId t))
                           @ rNode [''DtOfSgntr''] (JStr (substr isoDate 0 (Some 10)))
                           @ (if truthy (nullable (ammendment t))
                              then rNode [''AmdmntInd''] (JStr ''true'')
                                   @ rNode [''AmdmnInfDtls''] (nullable (ammendment t))
                              else rNode [''AmdmntInd''] (JStr ''false'')))
                      @ tail)))
         else Inr (Elem (TransactionTypes (tx_type t)) []
                (paymentId
                 @ rNodeCcy [''Amt'', ''InstdAmt''] (JStr (toFixed (amount t))) (currency t)
                 @ tail)))"

text \<open>The loop over \<open>_payments\<close>; the first exception ends it.\<close>

fun payments_toXML :: "('a \<Rightarrow> string) \<Rightarrow> 'a SepaTransaction list \<Rightarrow> error + xml list" where
  "payments_toXML toFixed [] = Inr []"
| "payments_toXML toFixed (t # ts) =
     (case tx_toXML toFixed t of
        Inl e \<Rightarrow> Inl e
      | Inr x \<Rightarrow> (case payments_toXML toFixed ts of
                    Inl e \<Rightarrow> Inl e
                  | Inr xs \<Rightarrow> Inr (x # xs)))"

definition pi_toXML :: "('a \<Rightarrow> string) \<Rightarrow> 'a SepaPaymentInfo \<Rightarrow> error + xml" where
  "pi_toXML toFixed p =
     (let painVersion = getPainXMLVersion (pi_painFormat p);
          head = rNode [''PmtInfId''] (JStr (pi_id p))
                 @ rNode [''PmtMtd''] (JStr (methodCode (pi_method p)))
                 @ (if painVersion = Some 3
                    then rNode [''BtchBookg''] (JStr (boolToString (pi_batchBooking p)))
                         @ rNode [''NbOfTxs''] (JNum (transactionCount p))
                         @ rNode [''CtrlSum''] (JStr (toFixed (pi_controlSum p)))
                    else []);
          pmtTpInf = rNode [''SvcLvl'', ''Cd''] (JStr ''SEPA'')
                     @ (if truthy (nullable (localInstrumentation p))
                        then rNode [''LclInstrm'', ''Cd''] (nullable (localInstrumentation p))
                        else []);
          pullFrom = (if pi_method p = DirectDebit then pi_creditor p else pi_debtor p);
          emitterNodeName = (if pi_method p = DirectDebit then ''Cdtr'' else ''Dbtr'');
          emitter = nNode [emitterNodeName]
                      (rNode [''Nm''] (JStr (Name pullFrom))
                       @ (if truthy (nullable (Street pullFrom))
                             \<and> truthy (nullable (City pullFrom))
                             \<and> truthy (nullable (Country pullFrom))
                          then nNode [''PstlAdr'']
                                 (rNode [''Ctry''] (nullable (Country pullFrom))
                                  @ rNode [''AdrLine''] (nullable (Street pullFrom))
                                  @ rNode [''AdrLine''] (nullable (City pullFrom)))
                          else []));
          agentName = (if painVersion = Some 3 then ''Agt'' else ''Agnt'');
          account = rNode [emitterNodeName @ ''Acct'', ''Id'', ''IBAN''] (JStr (IBAN pullFrom))
                    @ (if BIC pullFrom \<noteq> []
                       then rNode [emitterNodeName @ agentName, ''FinInstnId'', ''BIC'']
                              (JStr (BIC pullFrom))
                       else rNode [emitterNodeName @ agentName, ''FinInstnId'', ''Othr'', ''Id'']
                              (JStr ''NOTPROVIDED''))
                    @ rNode [''ChrgBr''] (JStr ''SLEV'');
          scheme = (if pi_method p = DirectDebit
                    then nNode [''CdtrSchmeId'', ''Id'', ''PrvtId'', ''Othr'']
                           (rNode [''Id''] (JStr (creditorId p))
                            @ rNode [''SchmeNm'', ''Prtry''] (JStr ''SEPA''))
                    else []);
          dated = (if pi_method p = DirectDebit
                   then (case collectionDate p of
                           None \<Rightarrow> Inl TypeError
                         | Some isoDate \<Rightarrow>
                             Inr (nNode [''PmtTpInf'']
                                    (pmtTpInf @ rNode [''SeqTp''] (JStr (sequenceType p)))
                                  @ rNode [''ReqdColltnDt''] (JStr (substr isoDate 0 (Some 10)))))
                   else (case requestedExecutionDate p of
                           None \<Rightarrow> Inl TypeError
                         | Some isoDate \<Rightarrow>
                             Inr (nNode [''PmtTpInf''] pmtTpInf
                                  @ rNode [''ReqdExctnDt''] (JStr (substr isoDate 0 (Some 10))))))
      in case dated of
           Inl e \<Rightarrow> Inl e
         | Inr d \<Rightarrow>
             (case payments_toXML toFixed (payments p) of
                Inl e \<Rightarrow> Inl e
              | Inr txs \<Rightarrow>
                  Inr (Elem ''PmtInf'' [] (head @ d @ emitter @ account @ scheme @ txs))))"

fun paymentInfo_toXML :: "('a \<Rightarrow> string) \<Rightarrow> 'a SepaPaymentInfo list \<Rightarrow> error + xml list" where
  "paymentInfo_toXML toFixed [] = Inr []"
| "paymentInfo_toXML toFixed (p # ps) =
     (case pi_toXML toFixed p of
        Inl e \<Rightarrow> Inl e
      | Inr x \<Rightarrow> (case paymentInfo_toXML toFixed ps of
                    Inl e \<Rightarrow> Inl e
                  | Inr xs \<Rightarrow> Inr (x # xs)))"

text \<open>
  \<open>createDocument\<close> takes the DOM of the browser when there is a global \<open>document\<close>
  (\<open>document.implementation\<close>, lines 626-627), and the DOM of the \<open>xmldom\<close> package that
  the library requires otherwise (lines 629-630). Every element name the library passes
  to \<open>createElementNS\<close> is a string, except \<open>this._type\<close> for the root element, which is
  \<open>undefined\<close> for a format that is not in \<open>SEPATypes\<close>. There the two DOMs differ:
  \<open>xmldom\<close> splits the name at the colon and so throws a \<open>TypeError\<close> on \<open>undefined\<close>; a
  browser converts the argument to the string \<open>undefined\<close> and creates the element.
\<close>

datatype domImplementation = XmlDom | BrowserDocument

definition createElementNS :: "domImplementation \<Rightarrow> string option \<Rightarrow> error + string" where
  "createElementNS impl qualifiedName =
     (case qualifiedName of
        Some q \<Rightarrow> Inr q
      | None \<Rightarrow> (case impl of XmlDom \<Rightarrow> Inl TypeError | BrowserDocument \<Rightarrow> Inr ''undefined''))"

text \<open>
  The DOM document \<open>SepaDocument.prototype.toXML\<close> returns: the namespace and name of the
  document element, the attributes set on it with \<open>setAttributeNS\<close> (namespace, qualified
  name, value), and the root element appended to it, with its name and children. The root
  element is created after the attribute is set and before the header and the blocks are
  serialized. The method leaves the document normalized.
\<close>

record domDocument =
  namespaceURI :: string
  documentElement :: string
  attributesNS :: "(string \<times> string \<times> string) list"
  rootElement :: string
  rootChildren :: "xml list"

definition toXML ::
  "domImplementation \<Rightarrow> ('a \<Rightarrow> string) \<Rightarrow> ('a::{zero,plus}) SepaDocument
     \<Rightarrow> error + domDocument" where
  "toXML impl toFixed doc0 =
     (let doc = doc_normalize doc0;
          docNS = ''urn:iso:std:iso:20022:tech:xsd:'' @ painFormat doc
      in case createElementNS impl (doc_type doc) of
           Inl e \<Rightarrow> Inl e
         | Inr rootName \<Rightarrow>
             (case gh_toXML toFixed (grpHdr doc) of
                Inl e \<Rightarrow> Inl e
              | Inr hdr \<Rightarrow>
                  (case paymentInfo_toXML toFixed (paymentInfo doc) of
                     Inl e \<Rightarrow> Inl e
                   | Inr blocks \<Rightarrow>
                       Inr \<lparr>namespaceURI = docNS, documentElement = ''Document'',
                            attributesNS =
                              [(XSI_NAMESPACE, ''xsi:schemaLocation'',
                                XSI_NS @ painFormat doc @ '' '' @ painFormat doc
                                @ ''.xsd'')],
                            rootElement = rootName,
                            rootChildren = hdr # blocks\<rparr>)))"

text \<open>
  \<open>Number.prototype.toFixed(2)\<close> on the exact value of a number below \<open>10^21\<close> in
  magnitude: the sign, then the integer \<open>n\<close> nearest to 100 times the magnitude (the larger
  one of two), written with two digits after the point.
\<close>

definition toFixed2 :: "rat \<Rightarrow> string" where
  "toFixed2 x =
     (let n = nat \<lfloor>\<bar>x\<bar> * 100 + 1 / 2\<rfloor>
      in (if x < 0 then ''-'' else [])
         @ toString (n div 100) @ ''.''
         @ [digitChar (n mod 100 div 10), digitChar (n mod 10)])"

text \<open>Reading the recorded tree: the element names among a list of nodes.\<close>

fun childTags :: "xml list \<Rightarrow> string list" where
  "childTags [] = []"
| "childTags (Elem t a k # xs) = t # childTags xs"
| "childTags (Text v # xs) = childTags xs"

fun tagOf :: "xml \<Rightarrow> string" where
  "tagOf (Elem t a k) = t"
| "tagOf (Text v) = []"

fun kidsOf :: "xml \<Rightarrow> xml list" where
  "kidsOf (Elem t a k) = k"
| "kidsOf (Text v) = []"

text \<open>The value of the attribute \<open>schemaLocation\<close> in the XML-Schema-instance namespace.\<close>

definition schemaLocationOf :: "error + domDocument \<Rightarrow> string option" where
  "schemaLocationOf res =
     (case res of
        Inl e \<Rightarrow> None
      | Inr d \<Rightarrow> map_of (map (\<lambda>(ns, q, v). ((ns, q), v)) (attributesNS d))
                   (XSI_NAMESPACE, ''xsi:schemaLocation''))"

text \<open>
  The form the specification gives for that value, word for word:
  \<open><base-ns> <formatId> <base-ns><formatId>.xsd\<close>.
\<close>

definition specSchemaLocation :: "string \<Rightarrow> string" where
  "specSchemaLocation f = XSI_NS @ '' '' @ f @ '' '' @ XSI_NS @ f @ ''.xsd''"

text \<open>The element names directly inside each block of a serialized document.\<close>

definition blockTags :: "error + domDocument \<Rightarrow> string list list" where
  "blockTags res =
     (case res of
        Inl e \<Rightarrow> []
      | Inr d \<Rightarrow> map (\<lambda>b. childTags (kidsOf b)) (tl (rootChildren d)))"

text \<open>The ids a document's blocks and a block's transactions carry after an insertion.\<close>

definition batchIds :: "error + 'a SepaDocument \<Rightarrow> string list" where
  "batchIds res = (case res of Inl e \<Rightarrow> [] | Inr d \<Rightarrow> map pi_id (paymentInfo d))"

definition transactionIds :: "error + 'a SepaPaymentInfo \<Rightarrow> string list" where
  "transactionIds res = (case res of Inl e \<Rightarrow> [] | Inr b \<Rightarrow> map tx_id (payments b))"

text \<open>
  What the constructor and the factory \<open>createPaymentInfo\<close> establish: the header and every
  block carry the document's format identifier.
\<close>

definition formatBound :: "'a SepaDocument \<Rightarrow> bool" where
  "formatBound doc =
     (gh_painFormat (grpHdr doc) = painFormat doc
      \<and> list_all (\<lambda>p. pi_painFormat p = painFormat doc) (paymentInfo doc))"


section \<open>Example data\<close>

text \<open>The digit string of the long-input check.\<close>

definition longDigits :: string where
  "longDigits = ''12345678901234567890123456''"

text \<open>
  A new document without blocks; a block from its factory with two transactions over
  10.00 and 5.50 (both exact as binary floating-point numbers, as is their sum); and the
  document after that block was added with separator \<open>.\<close>.
\<close>

definition sampleOptions :: "string \<Rightarrow> options" where
  "sampleOptions pf =
     \<lparr>opt_painFormat = Some pf, opt_id = ''MSG1'',
      opt_created = Some ''2014-06-01T10:00:00.000Z'', opt_initiatorName = ''Example Ltd''\<rparr>"

definition newDocument :: "string \<Rightarrow> rat SepaDocument" where
  "newDocument pf = SepaDocument (sampleOptions pf)"

definition sampleBlock :: "string \<Rightarrow> rat SepaPaymentInfo" where
  "sampleBlock pf =
     (createPaymentInfo (newDocument pf))
       \<lparr>payments := [(SepaTransaction pf)\<lparr>amount := 10,
                        mandateSignatureDate := Some ''2014-02-01T00:00:00.000Z''\<rparr>,
                     (SepaTransaction pf)\<lparr>amount := 11 / 2,
                        mandateSignatureDate := Some ''2014-02-01T00:00:00.000Z''\<rparr>],
        collectionDate := Some ''2014-06-10T00:00:00.000Z'',
        requestedExecutionDate := Some ''2014-06-10T00:00:00.000Z''\<rparr>"

definition sampleDocument :: "string \<Rightarrow> rat SepaDocument" where
  "sampleDocument pf =
     (newDocument pf)\<lparr>paymentInfo := [(sampleBlock pf)\<lparr>pi_id := ''MSG1.0''\<rparr>]\<rparr>"

text \<open>
  A \<open>pain.001.001.03\<close> document after \<open>addPaymentInfo\<close> was given a block that the factory
  of a \<open>pain.001.001.02\<close> document had made.
\<close>

definition foreignBlockDocument :: "rat SepaDocument" where
  "foreignBlockDocument =
     (newDocument ''pain.001.001.03'')
       \<lparr>paymentInfo := [(sampleBlock ''pain.001.001.02'')\<lparr>pi_id := ''MSG1.0''\<rparr>]\<rparr>"

text \<open>A document whose message id has 42 characters.\<close>

definition longIdDocument :: "rat SepaDocument" where
  "longIdDocument =
     SepaDocument ((sampleOptions ''pain.008.001.02'')
       \<lparr>opt_id := ''MSG-2014-06-01-EXAMPLE-LTD-COLLECTION-0001''\<rparr>)"

text \<open>
  A transfer whose creditor has a full postal address and whose debtor fields were never
  set, and a transaction carrying an id of its own, 40 characters long.
\<close>

definition addressedTransfer :: "rat SepaTransaction" where
  "addressedTransfer =
     (SepaTransaction ''pain.001.001.03'')
       \<lparr>tx_id := ''MSG1.0.0'', end2endId := ''E2E-1'', amount := 10,
        tx_creditor := \<lparr>Name = ''Jane Roe'', Street = Some ''Main Street 1'',
                         City = Some ''Berlin'', Country = Some ''DE'',
                         IBAN = ''DE87123456781234567890'', BIC = []\<rparr>\<rparr>"

definition namedTransaction :: "rat SepaTransaction" where
  "namedTransaction =
     (SepaTransaction ''pain.008.001.02'')
       \<lparr>tx_id := ''INVOICE-2014-000123-CUSTOMER-000456-RUN7''\<rparr>"


section \<open>The mod-97 fold\<close>

lemma digit_not_white: "isDigit c \<Longrightarrow> \<not> isWhiteSpace c"
  by (auto simp: isDigit_def isWhiteSpace_def)

lemma charCodeAt_sign: "charCodeAt (CHR ''-'') = 45" "charCodeAt (CHR ''+'') = 43"
  by (simp_all add: charCodeAt_def)

lemma charCodeAt_zero: "charCodeAt (CHR ''0'') = 48"
  by (simp add: charCodeAt_def)

lemma digit_not_sign: "isDigit c \<Longrightarrow> c \<noteq> CHR ''-'' \<and> c \<noteq> CHR ''+''"
  by (auto simp: isDigit_def charCodeAt_sign)

lemma parseInt_digit: "isDigit c \<Longrightarrow> parseInt [c] = Some (int (charCodeAt c - 48))"
  by (simp add: parseInt_def digit_not_white digit_not_sign)

lemma jsRem_nonneg: "0 \<le> a \<Longrightarrow> jsRem a 97 = a mod 97"
  by (cases "a = 0") (simp_all add: jsRem_def)

lemma txtMod97_loop_digits:
  "list_all isDigit ds \<Longrightarrow> 0 \<le> r \<Longrightarrow> r < 97 \<Longrightarrow>
   txtMod97_loop (Some r) ds = Some ((r * 10 ^ length ds + int (decimalValue ds)) mod 97)"
proof (induction ds arbitrary: r)
  case Nil
  then show ?case by simp
next
  case (Cons c cs)
  define d where "d = int (charCodeAt c - 48)"
  let ?r' = "(r * 10 + d) mod 97"
  have dv: "int (decimalValue (c # cs)) = d * 10 ^ length cs + int (decimalValue cs)"
    by (simp add: d_def)
  have dig: "isDigit c" and rest: "list_all isDigit cs"
    using Cons.prems(1) by simp_all
  have nn: "0 \<le> r * 10 + d"
    using Cons.prems(2) by (simp add: d_def)
  have step: "txtMod97_loop (Some r) (c # cs) = txtMod97_loop (Some ?r') cs"
    using jsRem_nonneg [OF nn] by (simp add: parseInt_digit [OF dig] d_def)
  have "0 \<le> ?r'" "?r' < 97" by simp_all
  from Cons.IH [OF rest this]
  have "txtMod97_loop (Some ?r') cs
          = Some ((?r' * 10 ^ length cs + int (decimalValue cs)) mod 97)" .
  also have "(?r' * 10 ^ length cs + int (decimalValue cs)) mod 97
               = ((r * 10 + d) * 10 ^ length cs + int (decimalValue cs)) mod 97"
    by (metis mod_add_left_eq mod_mult_left_eq)
  also have "(r * 10 + d) * 10 ^ length cs + int (decimalValue cs)
               = r * 10 ^ length (c # cs) + int (decimalValue (c # cs))"
    unfolding dv by (simp add: algebra_simps)
  finally show ?case using step by simp
qed

lemma txtMod97_digits:
  "list_all isDigit ds \<Longrightarrow> txtMod97 ds = Some (int (decimalValue ds) mod 97)"
  using txtMod97_loop_digits [of ds 0] by (simp add: txtMod97_def)

text \<open>
  C2. On every string of decimal digits, of any length, \<open>_txtMod97\<close> (the fold
  \<open>acc = (acc * 10 + digit) % 97\<close> from 0, left to right) returns the value of the whole
  digit string modulo 97; the sample string of 26 digits denotes
  12345678901234567890123456, and the fold returns that number modulo 97.
\<close>

theorem txtMod97_is_value_mod_97:
  "(list_all isDigit str \<longrightarrow> txtMod97 str = Some (int (decimalValue str) mod 97))
   \<and> decimalValue longDigits = 12345678901234567890123456
   \<and> txtMod97 longDigits = Some (12345678901234567890123456 mod 97)"
proof -
  have dig: "list_all isDigit longDigits"
    by (simp add: longDigits_def isDigit_def charCodeAt_def)
  have val: "decimalValue longDigits = 12345678901234567890123456"
    by (simp add: longDigits_def charCodeAt_def)
  have "txtMod97 longDigits = Some (int (decimalValue longDigits) mod 97)"
    using dig by (rule txtMod97_digits)
  then have "txtMod97 longDigits = Some (12345678901234567890123456 mod 97)"
    unfolding val by simp
  then show ?thesis using val by (simp add: txtMod97_digits)
qed

theorem txtMod97_is_value_mod_97_witness:
  "list_all isDigit ''2014'' \<and> txtMod97 ''2014'' = Some 74"
proof -
  have dig: "list_all isDigit ''2014''"
    by (simp add: isDigit_def charCodeAt_def)
  moreover have "int (decimalValue ''2014'') mod 97 = 74"
    by (simp add: charCodeAt_def)
  ultimately show ?thesis
    using txtMod97_is_value_mod_97 [of "''2014''"] by simp
qed


section \<open>Check digits\<close>

lemma decimalValue_append:
  "decimalValue (xs @ ys) = decimalValue xs * 10 ^ length ys + decimalValue ys"
  by (induction xs) (simp_all add: algebra_simps power_add)

lemma charCodeAt_digitChar: "d < 10 \<Longrightarrow> charCodeAt (digitChar d) = 48 + d"
  by (simp add: charCodeAt_def digitChar_def)

lemma isDigit_digitChar: "d < 10 \<Longrightarrow> isDigit (digitChar d)"
  by (simp add: isDigit_def charCodeAt_digitChar)

lemma toString_digits: "list_all isDigit (toString n)"
proof (induction n rule: toString.induct)
  case (1 n)
  show ?case
  proof (cases "n < 10")
    case True
    then show ?thesis by (simp add: isDigit_digitChar)
  next
    case False
    then have "list_all isDigit (toString (n div 10))" using 1 by simp
    moreover have "isDigit (digitChar (n mod 10))" by (simp add: isDigit_digitChar)
    ultimately show ?thesis using False by (subst toString.simps) simp
  qed
qed

lemma replaceChars_loop_acc: "replaceChars_loop res s = res @ replaceChars_loop [] s"
proof (induction s arbitrary: res)
  case Nil
  show ?case by simp
next
  case (Cons c cs)
  show ?case
    by (simp add: Let_def del: toString.simps) (metis Cons.IH append.assoc)
qed

lemma replaceChars_append: "replaceChars (xs @ ys) = replaceChars xs @ replaceChars ys"
proof -
  have "replaceChars_loop res (xs @ ys) = replaceChars_loop (replaceChars_loop res xs) ys" for res
    by (induction xs arbitrary: res) (simp_all add: Let_def del: toString.simps)
  then show ?thesis
    unfolding replaceChars_def
    using replaceChars_loop_acc [of "replaceChars_loop [] xs" ys] by simp
qed

lemma replaceChars_Cons:
  "replaceChars (c # cs) =
     (if 65 \<le> charCodeAt c \<and> charCodeAt c \<le> 90 then toString (charCodeAt c - 55)
      else if 97 \<le> charCodeAt c \<and> charCodeAt c \<le> 122 then toString (charCodeAt c - 87)
      else if 48 \<le> charCodeAt c \<and> charCodeAt c \<le> 57 then [c]
      else []) @ replaceChars cs"
  unfolding replaceChars_def
  by (subst replaceChars_loop.simps, subst replaceChars_loop_acc)
     (simp add: Let_def del: toString.simps)

lemma replaceChars_digits: "list_all isDigit (replaceChars s)"
proof (induction s)
  case Nil
  show ?case by (simp add: replaceChars_def)
next
  case (Cons c cs)
  then show ?case
    by (simp add: replaceChars_Cons toString_digits del: toString.simps)
       (simp add: isDigit_def)
qed

lemma replaceChars_of_digits: "list_all isDigit ds \<Longrightarrow> replaceChars ds = ds"
proof (induction ds)
  case Nil
  show ?case by (simp add: replaceChars_def)
next
  case (Cons c cs)
  then show ?case by (simp add: replaceChars_Cons isDigit_def del: toString.simps)
qed

lemma substr_from: "substr s (int k) None = drop k s"
  by (simp add: substr_def Let_def min_def)

lemma substr_take: "substr s 0 (Some k) = take k s"
  by (simp add: substr_def Let_def)

lemma substr_last2: "substr s (- 2) (Some 2) = take 2 (drop (length s - 2) s)"
proof -
  have "nat (max (int (length s) + - 2) 0) = length s - 2" by simp
  then show ?thesis by (simp add: substr_def Let_def)
qed

lemma toString_small: "n < 10 \<Longrightarrow> toString n = [digitChar n]"
  by simp

lemma toString_two:
  "10 \<le> n \<Longrightarrow> n < 100 \<Longrightarrow> toString n = [digitChar (n div 10), digitChar (n mod 10)]"
  by (subst toString.simps) simp

text \<open>The two check characters: for a number from 0 to 99 they are its two digits.\<close>

lemma check_string:
  assumes "0 \<le> k" "k < 100"
  defines "s \<equiv> substr (CHR ''0'' # numToString (Some k)) (- 2) (Some 2)"
  shows "length s = 2 \<and> list_all isDigit s \<and> int (decimalValue s) = k"
proof (cases "nat k < 10")
  case True
  then have "s = [CHR ''0'', digitChar (nat k)]"
    using assms(1)
    by (simp add: s_def numToString_def substr_last2 toString_small del: toString.simps)
  then show ?thesis
    using True assms(1)
    by (simp add: isDigit_digitChar charCodeAt_digitChar isDigit_def charCodeAt_zero)
next
  case False
  then have two: "toString (nat k) = [digitChar (nat k div 10), digitChar (nat k mod 10)]"
    using assms(2) by (intro toString_two) simp_all
  have "s = [digitChar (nat k div 10), digitChar (nat k mod 10)]"
    using assms(1) by (simp add: s_def numToString_def substr_last2 two del: toString.simps)
  moreover have "nat k div 10 < 10"
    using assms(2) by simp
  ultimately show ?thesis
    using assms(1) by (simp add: isDigit_digitChar charCodeAt_digitChar)
qed

text \<open>Moving the first four characters of the checked identifier to its end.\<close>

lemma rotate_checked:
  fixes iban chk :: string
  assumes "length chk = 2"
  defines "r \<equiv> substr iban 0 (Some 2) @ chk @ substr iban 4 None"
  shows "substr r 4 None @ substr r 0 (Some 4)
           = substr iban 4 None @ substr iban 0 (Some 2) @ chk"
proof -
  have f: "substr x 4 None = drop 4 x" for x
    using substr_from [of x 4] by simp
  show ?thesis
  proof (cases "2 \<le> length iban")
    case True
    then show ?thesis using assms(1) by (simp add: r_def f substr_take)
  next
    case False
    then show ?thesis using assms(1) by (simp add: r_def f substr_take)
  qed
qed

lemma check_mod97: "((x::int) + (98 - x mod 97)) mod 97 = 1"
proof -
  define q m where "q = x div 97" and "m = x mod 97"
  have x: "x = 97 * q + m" by (simp add: q_def m_def)
  have "x + (98 - m) = 1 + 97 * (q + 1)"
    unfolding x by (simp add: algebra_simps)
  also have "\<dots> mod 97 = 1"
    by (simp only: mod_mult_self2) simp
  finally show ?thesis by (simp add: m_def)
qed

lemma checksumIBAN_valid: "validateIBAN (checksumIBAN iban)"
proof -
  define body where "body = substr iban 4 None"
  define cc where "cc = substr iban 0 (Some 2)"
  define ds where "ds = replaceChars (body @ cc)"
  define v where "v = int (decimalValue ds)"
  define m where "m = txtMod97 (replaceChars (body @ cc @ ''00''))"
  define chk where "chk = substr (CHR ''0'' # numToString (checkValue m)) (- 2) (Some 2)"
  have zz: "replaceChars ''00'' = ''00''"
    by (simp add: replaceChars_of_digits isDigit_def charCodeAt_zero)
  have dig: "list_all isDigit ds"
    by (simp add: ds_def replaceChars_digits)
  have rc: "replaceChars (body @ cc @ ''00'') = ds @ ''00''"
    using replaceChars_append [of "body @ cc" "''00''"] by (simp add: ds_def zz)
  have "list_all isDigit (ds @ ''00'')"
    using dig by (simp add: isDigit_def charCodeAt_zero)
  then have "m = Some (int (decimalValue (ds @ ''00'')) mod 97)"
    unfolding m_def rc by (rule txtMod97_digits)
  then have m: "m = Some ((v * 100) mod 97)"
    by (simp add: decimalValue_append v_def charCodeAt_zero)
  define k where "k = 98 - (v * 100) mod 97"
  have k: "checkValue m = Some k"
    by (simp add: m checkValue_def k_def)
  have "0 \<le> k" "k < 100"
    by (simp_all add: k_def)
  from check_string [OF this]
  have chk: "length chk = 2" "list_all isDigit chk" "int (decimalValue chk) = k"
    by (simp_all add: chk_def k)
  have res: "checksumIBAN iban = cc @ chk @ body"
    by (simp add: checksumIBAN_def Let_def body_def cc_def chk_def m_def)
  have rot: "substr (cc @ chk @ body) 4 None @ substr (cc @ chk @ body) 0 (Some 4)
               = body @ cc @ chk"
    unfolding body_def cc_def by (rule rotate_checked [OF chk(1)])
  have "replaceChars (body @ cc @ chk) = ds @ chk"
    using replaceChars_append [of "body @ cc" chk]
    by (simp add: ds_def replaceChars_of_digits [OF chk(2)])
  moreover have "list_all isDigit (ds @ chk)"
    using dig chk(2) by simp
  ultimately have
    "txtMod97 (replaceChars (body @ cc @ chk)) = Some (int (decimalValue (ds @ chk)) mod 97)"
    using txtMod97_digits by simp
  also have "int (decimalValue (ds @ chk)) = v * 100 + k"
    using chk(1,3) by (simp add: decimalValue_append v_def)
  also have "(v * 100 + k) mod 97 = 1"
    unfolding k_def by (rule check_mod97)
  finally show ?thesis
    by (simp add: validateIBAN_def Let_def res rot)
qed

text \<open>
  C1. \<open>validateIBAN(checksumIBAN(iban))\<close> is true for every string \<open>iban\<close>, so for every IBAN
  skeleton with a placeholder at positions 2 and 3 and an alphanumeric body; and
  \<open>checksumIBAN("DE00123456781234567890")\<close> is \<open>"DE87123456781234567890"\<close>, which
  \<open>validateIBAN\<close> accepts.
\<close>

theorem checksumIBAN_roundtrip:
  "validateIBAN (checksumIBAN iban)
   \<and> checksumIBAN ''DE00123456781234567890'' = ''DE87123456781234567890''
   \<and> validateIBAN ''DE87123456781234567890''"
proof -
  have "checksumIBAN ''DE00123456781234567890'' = ''DE87123456781234567890''"
    by code_simp
  moreover have "validateIBAN ''DE87123456781234567890''"
    by code_simp
  ultimately show ?thesis
    by (simp add: checksumIBAN_valid)
qed

text \<open>
  C5. \<open>checksumCreditorID("DE00ZZZ09999999999")\<close> is \<open>"DE98ZZZ09999999999"\<close> and
  \<open>validateCreditorID("DE98ZZZ09999999999")\<close> is true; validation checks the rotation
  \<open>id[7:] + id[0:4]\<close>, the checksum is computed over \<open>id[7:] + id[0:2] + "00"\<close>.
\<close>

theorem creditorID_example:
  "checksumCreditorID ''DE00ZZZ09999999999'' = ''DE98ZZZ09999999999''
   \<and> validateCreditorID ''DE98ZZZ09999999999''
   \<and> validateCreditorID cid = (txtMod97 (replaceChars (drop 7 cid @ take 4 cid)) = Some 1)
   \<and> checksumCreditorID cid =
       take 2 cid
       @ substr (CHR ''0'' # numToString
                   (checkValue (txtMod97 (replaceChars (drop 7 cid @ take 2 cid @ ''00'')))))
           (- 2) (Some 2)
       @ drop 4 cid"
proof -
  have a: "checksumCreditorID ''DE00ZZZ09999999999'' = ''DE98ZZZ09999999999''"
    by code_simp
  have b: "validateCreditorID ''DE98ZZZ09999999999''"
    by code_simp
  have f7: "substr cid 7 None = drop 7 cid" and f4: "substr cid 4 None = drop 4 cid"
    using substr_from [of cid 7] substr_from [of cid 4] by simp_all
  have c: "validateCreditorID cid
             = (txtMod97 (replaceChars (drop 7 cid @ take 4 cid)) = Some 1)"
    by (simp add: validateCreditorID_def Let_def f7 substr_take)
  have d: "checksumCreditorID cid =
       take 2 cid
       @ substr (CHR ''0'' # numToString
                   (checkValue (txtMod97 (replaceChars (drop 7 cid @ take 2 cid @ ''00'')))))
           (- 2) (Some 2)
       @ drop 4 cid"
    by (simp add: checksumCreditorID_def Let_def f7 f4 substr_take)
  show ?thesis using a b c d by blast
qed

section \<open>Normalization\<close>

lemma pi_normalize_idem: "pi_normalize (pi_normalize p) = pi_normalize p"
  by (simp add: pi_normalize_def)

lemma pi_normalize_count: "transactionCount (pi_normalize p) = transactionCount p"
  by (simp add: pi_normalize_def transactionCount_def)

lemma pi_normalize_format: "pi_painFormat (pi_normalize p) = pi_painFormat p"
  by (simp add: pi_normalize_def)

lemma doc_normalize_loop_blocks:
  "fst (doc_normalize_loop cs tc ps) = map pi_normalize ps"
proof (induction ps arbitrary: cs tc)
  case Nil
  show ?case by simp
next
  case (Cons p ps)
  show ?case
    using Cons.IH [of "cs + pi_controlSum (pi_normalize p)"
                      "tc + transactionCount (pi_normalize p)"]
    by (auto simp: Let_def split: prod.splits)
qed

lemma doc_normalize_loop_again:
  "doc_normalize_loop cs tc (map pi_normalize ps) = doc_normalize_loop cs tc ps"
  by (induction ps arbitrary: cs tc)
     (simp_all add: Let_def pi_normalize_idem pi_normalize_count split: prod.splits)

lemma doc_normalize_idem: "doc_normalize (doc_normalize doc) = doc_normalize doc"
proof -
  obtain ps cs tc where l: "doc_normalize_loop 0 0 (paymentInfo doc) = (ps, cs, tc)"
    by (cases "doc_normalize_loop 0 0 (paymentInfo doc)") auto
  then have ps: "ps = map pi_normalize (paymentInfo doc)"
    using doc_normalize_loop_blocks [of 0 0 "paymentInfo doc"] by simp
  have l2: "doc_normalize_loop 0 0 ps = (ps, cs, tc)"
    unfolding ps using l doc_normalize_loop_again [of 0 0 "paymentInfo doc"] ps by simp
  have n1: "doc_normalize doc
              = doc\<lparr>paymentInfo := ps,
                     grpHdr := (grpHdr doc)\<lparr>gh_controlSum := cs,
                                             gh_transactionCount := tc\<rparr>\<rparr>"
    by (simp add: doc_normalize_def l)
  show ?thesis
    unfolding n1 by (simp add: doc_normalize_def l2)
qed

lemma doc_normalize_painFormat: "painFormat (doc_normalize doc) = painFormat doc"
  by (simp add: doc_normalize_def split: prod.splits)

lemma doc_normalize_doc_type: "doc_type (doc_normalize doc) = doc_type doc"
  by (simp add: doc_normalize_def split: prod.splits)

lemma doc_normalize_header_format:
  "gh_painFormat (grpHdr (doc_normalize doc)) = gh_painFormat (grpHdr doc)"
  by (simp add: doc_normalize_def split: prod.splits)

lemma doc_normalize_blocks:
  "paymentInfo (doc_normalize doc) = map pi_normalize (paymentInfo doc)"
  using doc_normalize_loop_blocks [of 0 0 "paymentInfo doc"]
  by (auto simp: doc_normalize_def split: prod.splits)

text \<open>
  C3. Calling \<open>normalize()\<close> a second time on a document whose blocks and transactions were
  not touched in between leaves the header's control sum and transaction count as the
  first call set them, whatever the number type's addition is. A document with one block
  of two transactions over 10.00 and 5.50 has control sum 15.50 and transaction count 2
  after \<open>normalize()\<close>, and after a second \<open>normalize()\<close>.
\<close>

theorem normalize_idempotent:
  "gh_controlSum (grpHdr (doc_normalize (doc_normalize doc)))
     = gh_controlSum (grpHdr (doc_normalize doc))
   \<and> gh_transactionCount (grpHdr (doc_normalize (doc_normalize doc)))
       = gh_transactionCount (grpHdr (doc_normalize doc))
   \<and> map amount (concat (map payments (paymentInfo (sampleDocument ''pain.001.001.03''))))
       = [10, 11 / 2]
   \<and> gh_controlSum (grpHdr (doc_normalize (sampleDocument ''pain.001.001.03''))) = 31 / 2
   \<and> gh_transactionCount (grpHdr (doc_normalize (sampleDocument ''pain.001.001.03''))) = 2
   \<and> gh_controlSum (grpHdr (doc_normalize (doc_normalize (sampleDocument ''pain.001.001.03''))))
       = 31 / 2
   \<and> gh_transactionCount
        (grpHdr (doc_normalize (doc_normalize (sampleDocument ''pain.001.001.03'')))) = 2"
proof -
  let ?d = "sampleDocument ''pain.001.001.03''"
  have a: "map amount (concat (map payments (paymentInfo ?d))) = [10, 11 / 2]"
    by (simp add: sampleDocument_def sampleBlock_def)
  have s: "gh_controlSum (grpHdr (doc_normalize ?d)) = 31 / 2"
    by code_simp
  have c: "gh_transactionCount (grpHdr (doc_normalize ?d)) = 2"
    by code_simp
  show ?thesis
    by (simp add: doc_normalize_idem a s c)
qed


section \<open>Identifiers assigned on insertion\<close>

text \<open>
  C9, as the code has it. A block added to a document gets the id made of the header's
  id, the separator, and the block's own id or, without one, the number of blocks already
  in the document. The id is not shortened. With header id \<open>MSG1\<close> and separator \<open>.\<close>, the
  first block added without an id gets \<open>MSG1.0\<close>, and a transaction added to that block
  without an id gets \<open>MSG1.0.0\<close>.
\<close>

theorem batch_id_assigned:
  "(\<exists>doc'. addPaymentInfo sep (APaymentInfo p) doc = Inr doc'
      \<and> butlast (paymentInfo doc') = paymentInfo doc
      \<and> pi_id (last (paymentInfo doc'))
          = gh_id (grpHdr doc) @ sep
            @ (if pi_id p \<noteq> [] then pi_id p else toString (length (paymentInfo doc))))
   \<and> gh_id (grpHdr (newDocument ''pain.008.001.02'')) = ''MSG1''
   \<and> (case addPaymentInfo ''.''
              (APaymentInfo (createPaymentInfo (newDocument ''pain.008.001.02'')))
              (newDocument ''pain.008.001.02'') of
         Inl e \<Rightarrow> False
       | Inr d \<Rightarrow>
           map pi_id (paymentInfo d) = [''MSG1.0'']
           \<and> transactionIds
                (addTransaction ''.''
                   (ATransaction (createTransaction (last (paymentInfo d))))
                   (last (paymentInfo d))) = [''MSG1.0.0''])"
proof -
  have a: "gh_id (grpHdr (newDocument ''pain.008.001.02'')) = ''MSG1''"
    by code_simp
  have b: "(case addPaymentInfo ''.''
              (APaymentInfo (createPaymentInfo (newDocument ''pain.008.001.02'')))
              (newDocument ''pain.008.001.02'') of
         Inl e \<Rightarrow> False
       | Inr d \<Rightarrow>
           map pi_id (paymentInfo d) = [''MSG1.0'']
           \<and> transactionIds
                (addTransaction ''.''
                   (ATransaction (createTransaction (last (paymentInfo d))))
                   (last (paymentInfo d))) = [''MSG1.0.0''])"
    by code_simp
  have g: "\<exists>doc'. addPaymentInfo sep (APaymentInfo p) doc = Inr doc'
      \<and> butlast (paymentInfo doc') = paymentInfo doc
      \<and> pi_id (last (paymentInfo doc'))
          = gh_id (grpHdr doc) @ sep
            @ (if pi_id p \<noteq> [] then pi_id p else toString (length (paymentInfo doc)))"
    by (simp add: addPaymentInfo_def del: toString.simps)
  from g a b show ?thesis
    by (intro conjI)
qed

text \<open>
  C9 as stated fails: a header id of 42 characters gives the first block an id of 44
  characters, more than 35.
\<close>

theorem batch_id_length_counterexample:
  "batchIds (addPaymentInfo ''.'' (APaymentInfo (createPaymentInfo longIdDocument))
               longIdDocument)
     = [''MSG-2014-06-01-EXAMPLE-LTD-COLLECTION-0001.0'']
   \<and> \<not> length ''MSG-2014-06-01-EXAMPLE-LTD-COLLECTION-0001.0'' \<le> 35"
  by code_simp

text \<open>
  C10. A transaction that already has a non-empty id keeps the first 35 characters of
  that id when it is added to a block: the block's id is not put in front, and a longer
  id is cut to 35 characters, not refused.
\<close>

theorem explicit_transaction_id_truncated:
  assumes "tx_id pmt \<noteq> []"
  shows "\<exists>p'. addTransaction sep (ATransaction pmt) p = Inr p'
           \<and> butlast (payments p') = payments p
           \<and> tx_id (last (payments p')) = take 35 (tx_id pmt)
           \<and> length (tx_id (last (payments p'))) \<le> 35"
  using assms by (simp add: addTransaction_def slice_def)

theorem explicit_transaction_id_truncated_witness:
  "tx_id namedTransaction \<noteq> []
   \<and> length (tx_id namedTransaction) = 40
   \<and> (\<exists>p'. addTransaction ''.'' (ATransaction namedTransaction)
               ((SepaPaymentInfo ''pain.008.001.02'' :: rat SepaPaymentInfo)
                  \<lparr>pi_id := ''MSG1.0''\<rparr>) = Inr p'
          \<and> tx_id (last (payments p')) = ''INVOICE-2014-000123-CUSTOMER-000456'')"
proof -
  have a: "tx_id namedTransaction \<noteq> []" by code_simp
  have b: "length (tx_id namedTransaction) = 40" by code_simp
  have d: "take 35 (tx_id namedTransaction) = ''INVOICE-2014-000123-CUSTOMER-000456''"
    by code_simp
  show ?thesis
    using explicit_transaction_id_truncated [OF a, of "''.''"
        "(SepaPaymentInfo ''pain.008.001.02'' :: rat SepaPaymentInfo)\<lparr>pi_id := ''MSG1.0''\<rparr>"]
      a b unfolding d by auto
qed

text \<open>The constructor and the factory establish \<open>formatBound\<close>, and insertion keeps it.\<close>

lemma formatBound_SepaDocument: "formatBound (SepaDocument opts)"
  by (simp add: formatBound_def SepaDocument_def SepaGroupHeader_def Let_def)

lemma createPaymentInfo_format: "pi_painFormat (createPaymentInfo doc) = painFormat doc"
  by (simp add: createPaymentInfo_def SepaPaymentInfo_def)

lemma formatBound_addPaymentInfo:
  assumes "formatBound doc" and "pi_painFormat p = painFormat doc"
    and "addPaymentInfo sep (APaymentInfo p) doc = Inr doc'"
  shows "formatBound doc'"
  using assms by (auto simp: formatBound_def addPaymentInfo_def)

section \<open>Element names in the serialized tree\<close>

lemma childTags_append: "childTags (xs @ ys) = childTags xs @ childTags ys"
  by (induction xs rule: childTags.induct) simp_all

lemma childTags_nest: "childTags (nest (t # ts) a k) = [t]"
  by (cases ts) simp_all

lemma childTags_rNode: "childTags (rNode (t # ts) v) = [t]"
  by (simp add: rNode_def createXMLHelper_def childTags_nest del: nest.simps)

lemma childTags_rNodeCcy: "childTags (rNodeCcy (t # ts) v c) = [t]"
  by (simp add: rNodeCcy_def createXMLHelper_def childTags_nest del: nest.simps)

lemma childTags_nNode: "childTags (nNode (t # ts) k) = [t]"
  by (simp add: nNode_def createXMLHelper_def childTags_nest del: nest.simps)

lemmas childTags_helpers = childTags_append childTags_rNode childTags_rNodeCcy childTags_nNode

lemma gh_toXML_tags:
  assumes "gh_toXML toFixed h = Inr x"
  shows "x = Elem ''GrpHdr'' [] (kidsOf x)
         \<and> childTags (kidsOf x) =
             [''MsgId'', ''CreDtTm'']
             @ (if getPainXMLVersion (gh_painFormat h) = Some 2 then [''BtchBookg''] else [])
             @ [''NbOfTxs'', ''CtrlSum'']
             @ (if getPainXMLVersion (gh_painFormat h) = Some 2 then [''Grpg''] else [])
             @ [''InitgPty'']"
proof (cases "created h")
  case None
  then show ?thesis using assms by (simp add: gh_toXML_def)
next
  case (Some d)
  then show ?thesis using assms
    by (auto simp: gh_toXML_def Let_def childTags_helpers)
qed

lemma tx_toXML_tag:
  assumes "tx_toXML toFixed t = Inr x"
  shows "tagOf x = TransactionTypes (tx_type t) \<and> x = Elem (tagOf x) [] (kidsOf x)"
proof (cases "tx_type t")
  case DirectDebit
  then obtain d where "mandateSignatureDate t = Some d"
    using assms by (cases "mandateSignatureDate t") (simp_all add: tx_toXML_def Let_def)
  then show ?thesis
    using assms DirectDebit by (auto simp: tx_toXML_def Let_def)
next
  case Transfer
  then show ?thesis
    using assms by (auto simp: tx_toXML_def Let_def)
qed

lemma payments_toXML_tags:
  "payments_toXML toFixed ts = Inr xs \<Longrightarrow>
   set (childTags xs) \<subseteq> {''DrctDbtTxInf'', ''CdtTrfTxInf''}"
proof (induction ts arbitrary: xs)
  case Nil
  then show ?case by simp
next
  case (Cons t ts)
  from Cons.prems obtain x xs' where
    x: "tx_toXML toFixed t = Inr x" and xs': "payments_toXML toFixed ts = Inr xs'"
    and xs: "xs = x # xs'"
    by (auto split: sum.splits)
  from tx_toXML_tag [OF x] have "tagOf x \<in> {''DrctDbtTxInf'', ''CdtTrfTxInf''}"
    by (cases "tx_type t") simp_all
  moreover have "childTags (x # xs') = tagOf x # childTags xs'"
    using tx_toXML_tag [OF x] by (cases x) simp_all
  ultimately show ?case using Cons.IH [OF xs'] xs by simp
qed

lemma pi_toXML_kids:
  assumes "pi_toXML toFixed p = Inr x"
  shows "\<exists>txs. payments_toXML toFixed (payments p) = Inr txs
           \<and> x = Elem ''PmtInf'' [] (kidsOf x)
           \<and> childTags (kidsOf x) =
               [''PmtInfId'', ''PmtMtd'']
               @ (if getPainXMLVersion (pi_painFormat p) = Some 3
                  then [''BtchBookg'', ''NbOfTxs'', ''CtrlSum''] else [])
               @ [''PmtTpInf'',
                  if pi_method p = DirectDebit then ''ReqdColltnDt'' else ''ReqdExctnDt'',
                  if pi_method p = DirectDebit then ''Cdtr'' else ''Dbtr'',
                  if pi_method p = DirectDebit then ''CdtrAcct'' else ''DbtrAcct'',
                  (if pi_method p = DirectDebit then ''Cdtr'' else ''Dbtr'')
                  @ (if getPainXMLVersion (pi_painFormat p) = Some 3 then ''Agt'' else ''Agnt''),
                  ''ChrgBr'']
               @ (if pi_method p = DirectDebit then [''CdtrSchmeId''] else [])
               @ childTags txs"
proof -
  obtain txs where t: "payments_toXML toFixed (payments p) = Inr txs"
    using assms
    by (cases "payments_toXML toFixed (payments p)")
       (auto simp: pi_toXML_def Let_def split: sum.splits)
  show ?thesis
  proof (cases "pi_method p")
    case DirectDebit
    then obtain d where d: "collectionDate p = Some d"
      using assms by (cases "collectionDate p") (simp_all add: pi_toXML_def Let_def)
    show ?thesis
      using assms DirectDebit d t
      by (auto simp: pi_toXML_def Let_def childTags_helpers)
  next
    case Transfer
    then obtain d where d: "requestedExecutionDate p = Some d"
      using assms by (cases "requestedExecutionDate p") (simp_all add: pi_toXML_def Let_def)
    show ?thesis
      using assms Transfer d t
      by (auto simp: pi_toXML_def Let_def childTags_helpers)
  qed
qed

lemma list_all2_right:
  "list_all2 P xs ys \<Longrightarrow> y \<in> set ys \<Longrightarrow> \<exists>x\<in>set xs. P x y"
  by (induction rule: list_all2_induct) auto

lemma paymentInfo_toXML_each:
  "paymentInfo_toXML toFixed ps = Inr xs \<Longrightarrow>
   list_all2 (\<lambda>p x. pi_toXML toFixed p = Inr x) ps xs"
proof (induction ps arbitrary: xs)
  case Nil
  then show ?case by simp
next
  case (Cons p ps)
  then show ?case by (auto split: sum.splits)
qed

lemma toXML_parts:
  assumes "toXML impl toFixed doc = Inr out"
  shows "\<exists>hdr blocks.
           gh_toXML toFixed (grpHdr (doc_normalize doc)) = Inr hdr
           \<and> paymentInfo_toXML toFixed (map pi_normalize (paymentInfo doc)) = Inr blocks
           \<and> rootChildren out = hdr # blocks
           \<and> createElementNS impl (doc_type doc) = Inr (rootElement out)
           \<and> attributesNS out =
                [(XSI_NAMESPACE, ''xsi:schemaLocation'',
                  XSI_NS @ painFormat doc @ '' '' @ painFormat doc @ ''.xsd'')]"
  using assms
  by (auto simp: toXML_def Let_def doc_normalize_blocks doc_normalize_painFormat
        doc_normalize_doc_type split: sum.splits)


section \<open>Version families\<close>

text \<open>
  C4, as the code has it. Take a document whose header and blocks carry the document's
  format identifier (\<open>formatBound\<close>: the blocks come from the document's own
  \<open>createPaymentInfo\<close>) and whose serialization succeeds. If the format belongs to version
  family 3 (the number read from the last two characters of the identifier, plus 1 for a
  \<open>pain.008\<close> format), the group header has no \<open>BtchBookg\<close> and no \<open>Grpg\<close> element, and every
  \<open>PmtInf\<close> block has \<open>BtchBookg\<close>, \<open>NbOfTxs\<close> and \<open>CtrlSum\<close>. If it belongs to family 2, the
  group header has \<open>BtchBookg\<close> and \<open>Grpg\<close>, and no \<open>PmtInf\<close> block has any of the three.
\<close>

theorem version_family_branching:
  assumes "toXML impl toFixed doc = Inr out" and "formatBound doc"
  shows "\<exists>hdr blocks.
           rootChildren out = Elem ''GrpHdr'' [] hdr # blocks
           \<and> length blocks = length (paymentInfo doc)
           \<and> (getPainXMLVersion (painFormat doc) = Some 3 \<longrightarrow>
                ''BtchBookg'' \<notin> set (childTags hdr) \<and> ''Grpg'' \<notin> set (childTags hdr)
                \<and> list_all (\<lambda>b. tagOf b = ''PmtInf''
                       \<and> {''BtchBookg'', ''NbOfTxs'', ''CtrlSum''}
                            \<subseteq> set (childTags (kidsOf b)))
                     blocks)
           \<and> (getPainXMLVersion (painFormat doc) = Some 2 \<longrightarrow>
                ''BtchBookg'' \<in> set (childTags hdr) \<and> ''Grpg'' \<in> set (childTags hdr)
                \<and> list_all (\<lambda>b. tagOf b = ''PmtInf''
                       \<and> set (childTags (kidsOf b))
                            \<inter> {''BtchBookg'', ''NbOfTxs'', ''CtrlSum''} = {})
                     blocks)"
proof -
  let ?v = "getPainXMLVersion (painFormat doc)"
  from toXML_parts [OF assms(1)] obtain h blocks where
    h: "gh_toXML toFixed (grpHdr (doc_normalize doc)) = Inr h"
    and b: "paymentInfo_toXML toFixed (map pi_normalize (paymentInfo doc)) = Inr blocks"
    and r: "rootChildren out = h # blocks"
    by blast
  have hf: "gh_painFormat (grpHdr (doc_normalize doc)) = painFormat doc"
    using assms(2) by (simp add: formatBound_def doc_normalize_header_format)
  from gh_toXML_tags [OF h] have
    hx: "h = Elem ''GrpHdr'' [] (kidsOf h)"
    and ht: "childTags (kidsOf h) =
               [''MsgId'', ''CreDtTm''] @ (if ?v = Some 2 then [''BtchBookg''] else [])
               @ [''NbOfTxs'', ''CtrlSum''] @ (if ?v = Some 2 then [''Grpg''] else [])
               @ [''InitgPty'']"
    unfolding hf by simp_all
  have each: "list_all2 (\<lambda>p x. pi_toXML toFixed p = Inr x)
                (map pi_normalize (paymentInfo doc)) blocks"
    using b by (rule paymentInfo_toXML_each)
  then have len: "length blocks = length (paymentInfo doc)"
    by (auto dest: list_all2_lengthD)
  have blk: "tagOf x = ''PmtInf''
             \<and> (?v = Some 3 \<longrightarrow>
                  {''BtchBookg'', ''NbOfTxs'', ''CtrlSum''} \<subseteq> set (childTags (kidsOf x)))
             \<and> (?v = Some 2 \<longrightarrow>
                  set (childTags (kidsOf x)) \<inter> {''BtchBookg'', ''NbOfTxs'', ''CtrlSum''} = {})"
    if "x \<in> set blocks" for x
  proof -
    from list_all2_right [OF each that] obtain p where p: "p \<in> set (paymentInfo doc)"
      and x: "pi_toXML toFixed (pi_normalize p) = Inr x"
      by auto
    have pf: "pi_painFormat (pi_normalize p) = painFormat doc"
      using assms(2) p by (simp add: formatBound_def pi_normalize_format list_all_iff)
    from pi_toXML_kids [OF x] obtain txs where
      t: "payments_toXML toFixed (payments (pi_normalize p)) = Inr txs"
      and e: "x = Elem ''PmtInf'' [] (kidsOf x)"
      and k: "childTags (kidsOf x) =
               [''PmtInfId'', ''PmtMtd'']
               @ (if ?v = Some 3 then [''BtchBookg'', ''NbOfTxs'', ''CtrlSum''] else [])
               @ [''PmtTpInf'',
                  if pi_method (pi_normalize p) = DirectDebit
                  then ''ReqdColltnDt'' else ''ReqdExctnDt'',
                  if pi_method (pi_normalize p) = DirectDebit then ''Cdtr'' else ''Dbtr'',
                  if pi_method (pi_normalize p) = DirectDebit
                  then ''CdtrAcct'' else ''DbtrAcct'',
                  (if pi_method (pi_normalize p) = DirectDebit then ''Cdtr'' else ''Dbtr'')
                  @ (if ?v = Some 3 then ''Agt'' else ''Agnt''),
                  ''ChrgBr'']
               @ (if pi_method (pi_normalize p) = DirectDebit then [''CdtrSchmeId''] else [])
               @ childTags txs"
      unfolding pf by blast
    have tg: "tagOf x = ''PmtInf''"
      by (subst e) simp
    note tt = payments_toXML_tags [OF t]
    have three: "{''BtchBookg'', ''NbOfTxs'', ''CtrlSum''} \<subseteq> set (childTags (kidsOf x))"
      if "?v = Some 3"
      unfolding k using that by simp
    have two: "set (childTags (kidsOf x)) \<inter> {''BtchBookg'', ''NbOfTxs'', ''CtrlSum''} = {}"
      if "?v = Some 2"
    proof -
      have "?v \<noteq> Some 3" using that by simp
      then show ?thesis unfolding k using tt by auto
    qed
    show ?thesis using tg three two by blast
  qed
  have r': "rootChildren out = Elem ''GrpHdr'' [] (kidsOf h) # blocks"
    using r hx by simp
  show ?thesis
    apply (rule exI [where x = "kidsOf h"], rule exI [where x = blocks])
    using r' len blk unfolding ht by (auto simp: list_all_iff)
qed

theorem version_family_branching_witness:
  "formatBound (sampleDocument ''pain.001.001.03'')
   \<and> getPainXMLVersion (painFormat (sampleDocument ''pain.001.001.03'')) = Some 3
   \<and> (\<exists>out hdr blocks.
         toXML XmlDom toFixed2 (sampleDocument ''pain.001.001.03'') = Inr out
         \<and> rootChildren out = Elem ''GrpHdr'' [] hdr # blocks
         \<and> length blocks = 1
         \<and> ''BtchBookg'' \<notin> set (childTags hdr) \<and> ''Grpg'' \<notin> set (childTags hdr)
         \<and> list_all (\<lambda>b. tagOf b = ''PmtInf''
                \<and> {''BtchBookg'', ''NbOfTxs'', ''CtrlSum''} \<subseteq> set (childTags (kidsOf b)))
              blocks)
   \<and> formatBound (sampleDocument ''pain.001.001.02'')
   \<and> getPainXMLVersion (painFormat (sampleDocument ''pain.001.001.02'')) = Some 2
   \<and> (\<exists>out hdr blocks.
         toXML XmlDom toFixed2 (sampleDocument ''pain.001.001.02'') = Inr out
         \<and> rootChildren out = Elem ''GrpHdr'' [] hdr # blocks
         \<and> length blocks = 1
         \<and> ''BtchBookg'' \<in> set (childTags hdr) \<and> ''Grpg'' \<in> set (childTags hdr)
         \<and> list_all (\<lambda>b. tagOf b = ''PmtInf''
                \<and> set (childTags (kidsOf b)) \<inter> {''BtchBookg'', ''NbOfTxs'', ''CtrlSum''} = {})
              blocks)"
proof -
  let ?d3 = "sampleDocument ''pain.001.001.03''" and ?d2 = "sampleDocument ''pain.001.001.02''"
  have "\<not> isl (toXML XmlDom toFixed2 ?d3)" by code_simp
  then obtain o3 where o3: "toXML XmlDom toFixed2 ?d3 = Inr o3"
    by (cases "toXML XmlDom toFixed2 ?d3") auto
  have "\<not> isl (toXML XmlDom toFixed2 ?d2)" by code_simp
  then obtain o2 where o2: "toXML XmlDom toFixed2 ?d2 = Inr o2"
    by (cases "toXML XmlDom toFixed2 ?d2") auto
  have i: "pi_id (sampleBlock pf) = []" for pf
    by (simp add: sampleBlock_def createPaymentInfo_def SepaPaymentInfo_def)
  have g: "gh_id (grpHdr (newDocument pf)) = ''MSG1''" for pf
    by (simp add: newDocument_def SepaDocument_def SepaGroupHeader_def sampleOptions_def
          Let_def)
  have n: "paymentInfo (newDocument pf) = []" for pf
    by (simp add: newDocument_def SepaDocument_def Let_def)
  have added: "addPaymentInfo ''.'' (APaymentInfo (sampleBlock pf)) (newDocument pf)
                 = Inr (sampleDocument pf)" for pf
  proof -
    have z: "toString 0 = ''0''" by code_simp
    show ?thesis
      by (simp add: addPaymentInfo_def i g n sampleDocument_def z del: toString.simps)
  qed
  have made: "pi_painFormat (sampleBlock pf) = painFormat (newDocument pf)" for pf
    by (simp add: sampleBlock_def createPaymentInfo_format)
  have fresh: "formatBound (newDocument pf)" for pf
    unfolding newDocument_def by (rule formatBound_SepaDocument)
  have bound: "formatBound (sampleDocument pf)" for pf
    using fresh [of pf] made [of pf] added [of pf] by (rule formatBound_addPaymentInfo)
  have f3: "formatBound ?d3" and f2: "formatBound ?d2"
    by (rule bound)+
  have v3: "getPainXMLVersion (painFormat ?d3) = Some 3"
    and v2: "getPainXMLVersion (painFormat ?d2) = Some 2"
    by code_simp+
  have l3: "length (paymentInfo ?d3) = 1" and l2: "length (paymentInfo ?d2) = 1"
    by (simp_all add: sampleDocument_def)
  show ?thesis
    using version_family_branching [OF o3 f3] version_family_branching [OF o2 f2]
    unfolding v3 v2 l3 l2 o3 o2 using f3 f2 by simp
qed


text \<open>
  C4 as stated fails: \<open>addPaymentInfo\<close> accepts any block, and a block serializes by its own
  format. A \<open>pain.001.001.03\<close> document (family 3) holding a block made by a
  \<open>pain.001.001.02\<close> document's \<open>createPaymentInfo\<close> serializes, and its \<open>PmtInf\<close> block has
  none of \<open>BtchBookg\<close>, \<open>NbOfTxs\<close> and \<open>CtrlSum\<close>.
\<close>

theorem version_family_counterexample:
  "addPaymentInfo ''.'' (APaymentInfo (sampleBlock ''pain.001.001.02''))
     (newDocument ''pain.001.001.03'') = Inr foreignBlockDocument
   \<and> painFormat foreignBlockDocument = ''pain.001.001.03''
   \<and> getPainXMLVersion (painFormat foreignBlockDocument) = Some 3
   \<and> blockTags (toXML XmlDom toFixed2 foreignBlockDocument) =
       [[''PmtInfId'', ''PmtMtd'', ''PmtTpInf'', ''ReqdExctnDt'', ''Dbtr'', ''DbtrAcct'',
         ''DbtrAgnt'', ''ChrgBr'', ''CdtTrfTxInf'', ''CdtTrfTxInf'']]
   \<and> blockTags (toXML BrowserDocument toFixed2 foreignBlockDocument) =
       [[''PmtInfId'', ''PmtMtd'', ''PmtTpInf'', ''ReqdExctnDt'', ''Dbtr'', ''DbtrAcct'',
         ''DbtrAgnt'', ''ChrgBr'', ''CdtTrfTxInf'', ''CdtTrfTxInf'']]"
  by code_simp


section \<open>The schema location\<close>

text \<open>
  C7, as the code has it. Serialization sets one attribute on the document element,
  \<open>xsi:schemaLocation\<close> in the XML-Schema-instance namespace, and its value is the namespace
  \<open>urn:iso:std:iso:20022:tech:xsd:\<close> followed by the format identifier, a space, and the
  file name made of the format identifier and \<open>.xsd\<close>: the identifier occurs twice, both
  times exactly as the document holds it.
\<close>

theorem schemaLocation_value:
  assumes "toXML impl toFixed doc = Inr out"
  shows "schemaLocationOf (Inr out)
           = Some (''urn:iso:std:iso:20022:tech:xsd:'' @ painFormat doc @ '' ''
                   @ painFormat doc @ ''.xsd'')
         \<and> attributesNS out =
             [(''http://www.w3.org/2001/XMLSchema-instance'', ''xsi:schemaLocation'',
               ''urn:iso:std:iso:20022:tech:xsd:'' @ painFormat doc @ '' ''
               @ painFormat doc @ ''.xsd'')]
         \<and> namespaceURI out = ''urn:iso:std:iso:20022:tech:xsd:'' @ painFormat doc"
proof -
  from toXML_parts [OF assms] have
    a: "attributesNS out =
          [(XSI_NAMESPACE, ''xsi:schemaLocation'',
            XSI_NS @ painFormat doc @ '' '' @ painFormat doc @ ''.xsd'')]"
    by blast
  have n: "namespaceURI out = ''urn:iso:std:iso:20022:tech:xsd:'' @ painFormat doc"
    using assms
    by (auto simp: toXML_def Let_def doc_normalize_painFormat split: sum.splits)
  show ?thesis
    using n by (simp add: schemaLocationOf_def a XSI_NAMESPACE_def XSI_NS_def)
qed

theorem schemaLocation_value_witness:
  "\<exists>out. toXML XmlDom toFixed2 (sampleDocument ''pain.001.001.03'') = Inr out
     \<and> schemaLocationOf (Inr out)
         = Some ''urn:iso:std:iso:20022:tech:xsd:pain.001.001.03 pain.001.001.03.xsd''"
proof -
  let ?d = "sampleDocument ''pain.001.001.03''"
  have "\<not> isl (toXML XmlDom toFixed2 ?d)" by code_simp
  then obtain out where out: "toXML XmlDom toFixed2 ?d = Inr out"
    by (cases "toXML XmlDom toFixed2 ?d") auto
  have "painFormat ?d = ''pain.001.001.03''" by code_simp
  then show ?thesis
    using schemaLocation_value [OF out] out by simp
qed

text \<open>
  C7 as stated fails: for \<open>pain.008.001.02\<close> the value is
  \<open>urn:iso:std:iso:20022:tech:xsd:pain.008.001.02 pain.008.001.02.xsd\<close>, which is neither
  the specification's form read word for word nor that form without the first space; the
  namespace prefix occurs once, not twice.
\<close>

theorem schemaLocation_counterexample:
  "schemaLocationOf (toXML XmlDom toFixed2 (sampleDocument ''pain.008.001.02''))
     = Some ''urn:iso:std:iso:20022:tech:xsd:pain.008.001.02 pain.008.001.02.xsd''
   \<and> schemaLocationOf (toXML XmlDom toFixed2 (sampleDocument ''pain.008.001.02''))
       \<noteq> Some (specSchemaLocation ''pain.008.001.02'')
   \<and> schemaLocationOf (toXML XmlDom toFixed2 (sampleDocument ''pain.008.001.02''))
       \<noteq> Some (XSI_NS @ ''pain.008.001.02'' @ '' '' @ XSI_NS @ ''pain.008.001.02'' @ ''.xsd'')"
  by code_simp


section \<open>Unrecognized format identifiers\<close>

text \<open>
  C6, as the code has it. Constructing a document with a non-empty format identifier that
  is not in \<open>SEPATypes\<close> (and is no inherited property name) does not fail: the document
  keeps the identifier and its root element type is undefined. The library has no check of
  the identifier at serialization either; it passes the undefined type to the DOM as the
  root element's name. With \<open>xmldom\<close> that call throws, so serializing any document whose
  type is undefined fails with a \<open>TypeError\<close>, whatever its header and blocks hold. With a
  browser's DOM the root element is named \<open>undefined\<close>, and serializing the new document
  succeeds when the header has a creation date.
\<close>

theorem unknown_format_unchecked:
  fixes opts :: options and toFixed :: "('a::{zero,plus}) \<Rightarrow> string"
    and doc :: "'a SepaDocument"
  assumes "SEPATypes f = None" and "f \<noteq> []" and "f \<notin> set inheritedNames"
    and "opt_painFormat opts = Some f"
  shows "painFormat (SepaDocument opts :: 'a SepaDocument) = f
         \<and> doc_type (SepaDocument opts :: 'a SepaDocument) = None
         \<and> (doc_type doc = None \<longrightarrow> toXML XmlDom toFixed doc = Inl TypeError)
         \<and> (opt_created opts \<noteq> None \<longrightarrow>
              (\<exists>out. toXML BrowserDocument toFixed (SepaDocument opts) = Inr out
                 \<and> rootElement out = ''undefined''))"
proof -
  let ?doc = "SepaDocument opts :: 'a SepaDocument"
  have pf: "painFormat ?doc = f" and ty: "doc_type ?doc = None"
    and ps: "paymentInfo ?doc = []" and cr: "created (grpHdr ?doc) = opt_created opts"
    using assms by (simp_all add: SepaDocument_def SepaGroupHeader_def)
  have n: "doc_normalize ?doc
             = ?doc\<lparr>grpHdr := (grpHdr ?doc)\<lparr>gh_controlSum := 0,
                                              gh_transactionCount := 0\<rparr>\<rparr>"
    by (simp add: doc_normalize_def ps)
  have x: "toXML XmlDom toFixed doc = Inl TypeError" if "doc_type doc = None"
    using that by (simp add: toXML_def Let_def doc_normalize_doc_type createElementNS_def)
  have b: "\<exists>out. toXML BrowserDocument toFixed ?doc = Inr out \<and> rootElement out = ''undefined''"
    if "opt_created opts \<noteq> None"
    using that
    by (auto simp: toXML_def Let_def n gh_toXML_def cr ps ty createElementNS_def)
  show ?thesis using pf ty x b by blast
qed

theorem unknown_format_unchecked_witness:
  "SEPATypes ''pain.001.001.04'' = None
   \<and> ''pain.001.001.04'' \<notin> set inheritedNames
   \<and> opt_painFormat (sampleOptions ''pain.001.001.04'') = Some ''pain.001.001.04''
   \<and> opt_created (sampleOptions ''pain.001.001.04'') \<noteq> None
   \<and> painFormat (newDocument ''pain.001.001.04'') = ''pain.001.001.04''
   \<and> doc_type (sampleDocument ''pain.001.001.04'') = None
   \<and> toXML XmlDom toFixed2 (sampleDocument ''pain.001.001.04'') = Inl TypeError
   \<and> (\<exists>out. toXML BrowserDocument toFixed2 (newDocument ''pain.001.001.04'') = Inr out
         \<and> rootElement out = ''undefined'')"
proof -
  have a: "SEPATypes ''pain.001.001.04'' = None" by code_simp
  have b: "''pain.001.001.04'' \<noteq> []" by simp
  have c: "opt_painFormat (sampleOptions ''pain.001.001.04'') = Some ''pain.001.001.04''"
    by (simp add: sampleOptions_def)
  have d: "opt_created (sampleOptions ''pain.001.001.04'') \<noteq> None"
    by (simp add: sampleOptions_def)
  have i: "''pain.001.001.04'' \<notin> set inheritedNames"
    by (simp add: inheritedNames_def)
  have t: "doc_type (sampleDocument ''pain.001.001.04'') = None"
    by code_simp
  show ?thesis
    using unknown_format_unchecked [OF a b i c, of "sampleDocument ''pain.001.001.04''" toFixed2]
      a c d i t
    unfolding newDocument_def [symmetric] by simp
qed

text \<open>
  C6 as stated fails: \<open>pain.001.001.04\<close> is not a recognized identifier, yet the
  constructor returns a document with that format and an undefined root element type,
  and with a browser's DOM, the branch of \<open>createDocument\<close> for a page that loads the
  library, serialization returns a document whose root element is named \<open>undefined\<close>:
  nothing fails at construction or at serialization.
\<close>

theorem unknown_format_counterexample:
  "SEPATypes ''pain.001.001.04'' = None
   \<and> ''pain.001.001.04'' \<notin> set inheritedNames
   \<and> painFormat (newDocument ''pain.001.001.04'') = ''pain.001.001.04''
   \<and> doc_type (newDocument ''pain.001.001.04'') = None
   \<and> toXML BrowserDocument toFixed2 (newDocument ''pain.001.001.04'') =
       Inr \<lparr>namespaceURI = ''urn:iso:std:iso:20022:tech:xsd:pain.001.001.04'',
            documentElement = ''Document'',
            attributesNS =
              [(''http://www.w3.org/2001/XMLSchema-instance'', ''xsi:schemaLocation'',
                ''urn:iso:std:iso:20022:tech:xsd:pain.001.001.04 pain.001.001.04.xsd'')],
            rootElement = ''undefined'',
            rootChildren =
              [Elem ''GrpHdr'' []
                 [Elem ''MsgId'' [] [Text (JStr ''MSG1'')],
                  Elem ''CreDtTm'' [] [Text (JStr ''2014-06-01T10:00:00.000Z'')],
                  Elem ''NbOfTxs'' [] [Text (JNum 0)],
                  Elem ''CtrlSum'' [] [Text (JStr ''0.00'')],
                  Elem ''InitgPty'' [] [Elem ''Nm'' [] [Text (JStr ''Example Ltd'')]]]]\<rparr>"
  by code_simp


section \<open>The counterparty's postal address\<close>

text \<open>
  C8 on a transfer whose creditor has street, city and country and whose debtor has none:
  the address block is emitted under \<open>Cdtr\<close>, but its \<open>Ctry\<close> and \<open>AdrLine\<close> values are the
  debtor's fields (here \<open>null\<close>), not the creditor's \<open>DE\<close>, \<open>Main Street 1\<close> and \<open>Berlin\<close>.
\<close>

theorem transfer_address_from_debtor_fields:
  "tx_toXML toFixed2 addressedTransfer =
     Inr (Elem ''CdtTrfTxInf'' []
       [Elem ''PmtId'' []
          [Elem ''InstrId'' [] [Text (JStr ''MSG1.0.0'')],
           Elem ''EndToEndId'' [] [Text (JStr ''E2E-1'')]],
        Elem ''Amt'' [] [Elem ''InstdAmt'' [(''Ccy'', ''EUR'')] [Text (JStr ''10.00'')]],
        Elem ''CdtrAgt'' []
          [Elem ''FinInstnId'' []
             [Elem ''Othr'' [] [Elem ''Id'' [] [Text (JStr ''NOTPROVIDED'')]]]],
        Elem ''Cdtr'' []
          [Elem ''Nm'' [] [Text (JStr ''Jane Roe'')],
           Elem ''PstlAdr'' []
             [Elem ''Ctry'' [] [Text JNull],
              Elem ''AdrLine'' [] [Text JNull],
              Elem ''AdrLine'' [] [Text JNull]]],
        Elem ''CdtrAcct'' []
          [Elem ''Id'' [] [Elem ''IBAN'' [] [Text (JStr ''DE87123456781234567890'')]]],
        Elem ''RmtInf'' [] [Elem ''Ustrd'' [] [Text (JStr [])]]])
   \<and> tx_type addressedTransfer = Transfer
   \<and> Country (tx_creditor addressedTransfer) = Some ''DE''
   \<and> Street (tx_creditor addressedTransfer) = Some ''Main Street 1''
   \<and> City (tx_creditor addressedTransfer) = Some ''Berlin''"
  by code_simp

end
